theory Spec2Isabelle
  imports Complex_Main
begin

section \<open>The environment module of the CLIPS binding (clips/environment.py)\<close>

text \<open>
  The module is a thin layer over the engine's C library: class \<open>Environment\<close> with its
  lifecycle and file operations, and the callback \<open>python_function\<close> through which the
  engine calls Python functions registered with \<open>define_function\<close>. Python exceptions
  are values of a sum type, the module-level dictionary \<open>ENVIRONMENT_DATA\<close> is a map in
  an explicit state, and the C library is a record of functions on a native state.
\<close>

subsection \<open>Values\<close>

text \<open>An engine handle: the \<open>void *\<close> that \<open>lib.CreateEnvironment()\<close> returns, by its address.\<close>

type_synonym handle = nat

text \<open>
  The type codes of \<open>clips.common.CLIPSType\<close> for the value domain of the callback
  interface, and an engine-side datum (the content of a \<open>DATA_OBJECT\<close>) tagged by them.
\<close>

datatype CLIPSType = FLOAT | INTEGER | SYMBOL | STRING | MULTIFIELD

datatype clips_data =
    Float_data real
  | Integer_data int
  | Symbol_data string
  | String_data string
  | Multifield_data "clips_data list"

fun clips_type :: "clips_data \<Rightarrow> CLIPSType" where
  "clips_type (Float_data x) = FLOAT"
| "clips_type (Integer_data i) = INTEGER"
| "clips_type (Symbol_data s) = SYMBOL"
| "clips_type (String_data s) = STRING"
| "clips_type (Multifield_data ds) = MULTIFIELD"

text \<open>
  Python values. \<open>Symbol\<close> is \<open>clips.common.Symbol\<close>, a subclass of \<open>str\<close>;
  \<open>PyObject\<close> stands for any other object a callable may return, by its identity.
\<close>

datatype py_value =
    PyNone
  | PyInt int
  | PyFloat real
  | PyStr string
  | Symbol string
  | PyList "py_value list"
  | PyObject nat

text \<open>
  Modelled from the spec: the \<open>value\<close> getter of \<open>clips.data.DataObject\<close> (module
  \<open>clips.data\<close> is not among the sources), over the value domain the spec gives for the
  callback interface: integer, float, string, symbol, list of values.
\<close>

fun data_value :: "clips_data \<Rightarrow> py_value" where
  "data_value (Float_data x) = PyFloat x"
| "data_value (Integer_data i) = PyInt i"
| "data_value (Symbol_data s) = Symbol s"
| "data_value (String_data s) = PyStr s"
| "data_value (Multifield_data ds) = PyList (map data_value ds)"

subsection \<open>Exceptions\<close>

text \<open>
  A raised exception, by what the module observes of it: the name of its class, the text
  \<open>str(error)\<close> yields, and whether it is an instance of \<open>Exception\<close> (a
  \<open>SystemExit\<close>, \<open>KeyboardInterrupt\<close> or \<open>GeneratorExit\<close> is a \<open>BaseException\<close>
  only, and \<open>except Exception\<close> does not catch it).
\<close>

datatype py_exception =
  PyExc (exc_class: string) (exc_str: string) (exc_is_Exception: bool)

definition RuntimeError :: py_exception where
  "RuntimeError = PyExc ''RuntimeError'' [] True"

text \<open>\<open>str(KeyError(k))\<close> is \<open>repr(k)\<close>; the constructor takes that text.\<close>

definition KeyError :: "string \<Rightarrow> py_exception" where
  "KeyError key_repr = PyExc ''KeyError'' key_repr True"

text \<open>
  \<open>CLIPSError(env)\<close> of \<open>clips.error\<close> (not among the sources) carries the message the
  environment's error router captured; the constructor takes that message.
\<close>

definition CLIPSError :: "string \<Rightarrow> py_exception" where
  "CLIPSError message = PyExc ''CLIPSError'' message True"

subsection \<open>The text of keys in a KeyError\<close>

definition hex_digit :: "nat \<Rightarrow> char" where
  "hex_digit d = ''0123456789abcdef'' ! (d mod 16)"

fun hex :: "nat \<Rightarrow> string" where
  "hex n = (if n < 16 then [hex_digit n] else hex (n div 16) @ [hex_digit (n mod 16)])"

text \<open>
  \<open>repr\<close> of a \<open>str\<close> in CPython 3, for text of code points up to 255 (one \<open>char\<close>
  each): single quotes unless the text holds a single quote and no double quote; the
  quote and the backslash escaped; tab, newline and return as \<open>\t\<close>, \<open>\n\<close>, \<open>\r\<close>;
  every other non-printable character as \<open>\xNN\<close>.
\<close>

definition py_printable :: "char \<Rightarrow> bool" where
  "py_printable c =
     (let n = (of_char c :: nat)
      in (32 \<le> n \<and> n < 127) \<or> (161 \<le> n \<and> n \<noteq> 173))"

definition repr_char :: "char \<Rightarrow> char \<Rightarrow> string" where
  "repr_char quote c =
     (if c = quote \<or> c = CHR 0x5C then [CHR 0x5C, c]
      else if c = CHR 0x09 then [CHR 0x5C, CHR ''t'']
      else if c = CHR 0x0A then [CHR 0x5C, CHR ''n'']
      else if c = CHR 0x0D then [CHR 0x5C, CHR ''r'']
      else if py_printable c then [c]
      else [CHR 0x5C, CHR ''x'', hex_digit (of_char c div 16), hex_digit (of_char c mod 16)])"

definition py_repr :: "string \<Rightarrow> string" where
  "py_repr s =
     (let quote = (if CHR 0x27 \<in> set s \<and> CHR 0x22 \<notin> set s then CHR 0x22 else CHR 0x27)
      in [quote] @ concat (map (repr_char quote) s) @ [quote])"

text \<open>\<open>repr\<close> of a cffi pointer: \<open><cdata 'void *' 0x...>\<close>, or \<open>NULL\<close> for address 0.\<close>

definition cdata_repr :: "handle \<Rightarrow> string" where
  "cdata_repr h =
     ''<cdata '' @ [CHR 0x27] @ ''void *'' @ [CHR 0x27] @ '' '' @
       (if h = 0 then ''NULL'' else ''0x'' @ hex h) @ ''>''"

subsection \<open>Callables, the registry and the state\<close>

text \<open>
  A Python callable registered as a user function: its \<open>__name__\<close> and what a call
  does. A call takes the positional arguments and the state \<open>'w\<close> of the Python program
  around the binding, and returns a value or raises, with the state it leaves.
\<close>

record 'w py_function =
  fn_name :: string
  fn_call :: "py_value list \<Rightarrow> 'w \<Rightarrow> (py_exception + py_value) \<times> 'w"

text \<open>\<open>ErrorRouter(name, priority)\<close> and \<open>EnvData(user_functions, error_router)\<close>.\<close>

record ErrorRouter =
  router_name :: string
  router_priority :: int

record 'w EnvData =
  user_functions :: "string \<rightharpoonup> 'w py_function"
  error_router :: ErrorRouter

text \<open>
  The state the module works on: the process-wide dictionary \<open>ENVIRONMENT_DATA\<close>, the
  state \<open>'n\<close> of the C library, and the state \<open>'w\<close> of the surrounding Python program.
\<close>

record ('n, 'w) state =
  ENVIRONMENT_DATA :: "handle \<rightharpoonup> 'w EnvData"
  native :: 'n
  world :: 'w

text \<open>An \<open>Environment\<close> object: its slot \<open>_env\<close>.\<close>

record Environment =
  env_ptr :: handle

subsection \<open>The callback python\_function\<close>

text \<open>
  Modelled from the spec: the engine's argument access (\<open>lib.EnvRtnArgCount\<close>,
  \<open>lib.EnvArgTypeCheck\<close>, \<open>lib.EnvRtnUnknown\<close>; the C library is not among the sources).
  The spec has a rule action invoke a registered user function by name with positional
  arguments: the call being evaluated is the list of its arguments, the name first
  (position 1). \<open>EnvRtnArgCount\<close> is their number. \<open>EnvArgTypeCheck\<close> gives
  \<open>Some d\<close> when it returns 1, having stored the argument \<open>d\<close> of the position in the
  data object it is given: the argument exists and has the expected type; \<open>None\<close> when
  it returns anything else. \<open>EnvRtnUnknown\<close> stores the argument of the position in the
  data object, and leaves the object as it is when there is no such argument.
\<close>

definition EnvRtnArgCount :: "clips_data list \<Rightarrow> nat" where
  "EnvRtnArgCount args = length args"

definition EnvArgTypeCheck :: "clips_data list \<Rightarrow> nat \<Rightarrow> CLIPSType \<Rightarrow> clips_data option" where
  "EnvArgTypeCheck args position expected =
     (if 1 \<le> position \<and> position \<le> length args
         \<and> clips_type (args ! (position - 1)) = expected
      then Some (args ! (position - 1)) else None)"

definition EnvRtnUnknown :: "clips_data list \<Rightarrow> nat \<Rightarrow> clips_data \<Rightarrow> clips_data" where
  "EnvRtnUnknown args position temp =
     (if 1 \<le> position \<and> position \<le> length args then args ! (position - 1) else temp)"

text \<open>
  The loop \<open>for index in range(2, argnum + 1)\<close>: each round stores the argument in
  \<open>temp\<close> and appends \<open>temp.value\<close> to \<open>arguments\<close>.
\<close>

fun collect_arguments ::
  "clips_data list \<Rightarrow> nat list \<Rightarrow> clips_data \<Rightarrow> py_value list \<Rightarrow> py_value list" where
  "collect_arguments args [] temp arguments = arguments"
| "collect_arguments args (index # rest) temp arguments =
     (let temp' = EnvRtnUnknown args index temp
      in collect_arguments args rest temp' (arguments @ [data_value temp']))"

text \<open>
  The expression \<open>ENVIRONMENT_DATA[env].user_functions[funcname](*arguments)\<close> of the
  \<open>try\<close> block: two dictionary lookups, each raising \<open>KeyError\<close> on a missing key,
  then the call. \<open>funcname\<close> is the text of a \<open>Symbol\<close>, which hashes and compares as
  the \<open>str\<close> it extends.
\<close>

definition call_user_function ::
  "handle \<Rightarrow> string \<Rightarrow> py_value list \<Rightarrow> ('n, 'w) state \<Rightarrow> (py_exception + py_value) \<times> 'w" where
  "call_user_function env funcname arguments s =
     (case ENVIRONMENT_DATA s env of
        None \<Rightarrow> (Inl (KeyError (cdata_repr env)), world s)
      | Some env_data \<Rightarrow>
          (case user_functions env_data funcname of
             None \<Rightarrow> (Inl (KeyError (py_repr funcname)), world s)
           | Some function \<Rightarrow> fn_call function arguments (world s)))"

text \<open>
  \<open>python_function(env, data_object)\<close>, called by the engine with the arguments
  \<open>args\<close> of the \<open>(python-function name arg ...)\<close> call it is evaluating. \<open>data\<close> is
  the value the result object holds on entry. The result is \<open>Inl\<close> the exception that
  leaves the function or \<open>Inr ()\<close>, with the value the result object holds and the state
  on exit.
\<close>

definition python_function ::
  "handle \<Rightarrow> clips_data list \<Rightarrow> py_value \<Rightarrow> ('n, 'w) state
     \<Rightarrow> (py_exception + unit) \<times> py_value \<times> ('n, 'w) state" where
  "python_function env args data s =
     (let argnum = EnvRtnArgCount args
      in case EnvArgTypeCheck args 1 SYMBOL of
           Some (Symbol_data funcname) \<Rightarrow>
             (let arguments = collect_arguments args [2 ..< argnum + 1] (Symbol_data funcname) [];
                  (outcome, w) = call_user_function env funcname arguments s;
                  s' = s\<lparr>world := w\<rparr>
              in case outcome of
                   Inr ret \<Rightarrow> (Inr (), (if ret \<noteq> PyNone then ret else Symbol ''nil''), s')
                 | Inl error \<Rightarrow>
                     if exc_is_Exception error
                     then (Inr (), PyStr (exc_class error @ '': '' @ exc_str error), s')
                     else (Inl error, data, s'))
         | _ \<Rightarrow> (Inl RuntimeError, data, s))"

subsection \<open>The C library\<close>

text \<open>
  The functions of \<open>clips._clips.lib\<close> the module calls. The library is the external
  engine: each function is a parameter, a function on the native state returning what the
  C function returns. \<open>EnvReset\<close>, \<open>EnvClear\<close>, \<open>DestroyEnvironment\<close> and
  \<open>lib.define_function\<close> return a value too (whatever the C function reports, nothing
  for a \<open>void\<close> one), which the module discards. \<open>add_to_environment\<close> is the
  registration of the error router with the engine, and \<open>last_message\<close> the text that
  router captured for an environment, which \<open>CLIPSError(env)\<close> reads.
\<close>

record 'n lib =
  CreateEnvironment :: "'n \<Rightarrow> handle \<times> 'n"
  DestroyEnvironment :: "handle \<Rightarrow> 'n \<Rightarrow> int \<times> 'n"
  lib_define_function :: "handle \<Rightarrow> 'n \<Rightarrow> int \<times> 'n"
  add_to_environment :: "ErrorRouter \<Rightarrow> handle \<Rightarrow> 'n \<Rightarrow> 'n"
  last_message :: "handle \<Rightarrow> 'n \<Rightarrow> string"
  EnvBload :: "handle \<Rightarrow> string \<Rightarrow> 'n \<Rightarrow> int \<times> 'n"
  EnvLoad :: "handle \<Rightarrow> string \<Rightarrow> 'n \<Rightarrow> int \<times> 'n"
  EnvBsave :: "handle \<Rightarrow> string \<Rightarrow> 'n \<Rightarrow> int \<times> 'n"
  EnvSave :: "handle \<Rightarrow> string \<Rightarrow> 'n \<Rightarrow> int \<times> 'n"
  EnvBatchStar :: "handle \<Rightarrow> string \<Rightarrow> 'n \<Rightarrow> int \<times> 'n"
  EnvBuild :: "handle \<Rightarrow> string \<Rightarrow> 'n \<Rightarrow> int \<times> 'n"
  EnvEval :: "handle \<Rightarrow> string \<Rightarrow> 'n \<Rightarrow> (int \<times> clips_data) \<times> 'n"
  EnvReset :: "handle \<Rightarrow> 'n \<Rightarrow> int \<times> 'n"
  EnvClear :: "handle \<Rightarrow> 'n \<Rightarrow> int \<times> 'n"

subsection \<open>Class Environment\<close>

text \<open>
  \<open>Environment.__init__\<close>: a new engine, the \<open>python-function\<close> entry point defined in
  it, the error router added to it, and a fresh entry of \<open>ENVIRONMENT_DATA\<close> with an
  empty registry. (The namespace objects \<open>Facts\<close>, \<open>Agenda\<close>, \<open>Classes\<close>,
  \<open>Modules\<close> and \<open>Functions\<close> only keep the handle.)
\<close>

definition Environment_init :: "'n lib \<Rightarrow> ('n, 'w) state \<Rightarrow> Environment \<times> ('n, 'w) state" where
  "Environment_init L s =
     (let (env, n1) = CreateEnvironment L (native s);
          (_, n2) = lib_define_function L env n1;
          router = \<lparr>router_name = ''python-error-router'', router_priority = 40\<rparr>;
          n3 = add_to_environment L router env n2
      in (\<lparr>env_ptr = env\<rparr>,
          s\<lparr>ENVIRONMENT_DATA :=
              (ENVIRONMENT_DATA s)(env \<mapsto> \<lparr>user_functions = Map.empty, error_router = router\<rparr>),
            native := n3\<rparr>))"

text \<open>\<open>del d[k]\<close>: \<open>KeyError\<close> when the key is missing.\<close>

definition py_delitem :: "('k \<rightharpoonup> 'v) \<Rightarrow> 'k \<Rightarrow> string \<Rightarrow> py_exception + ('k \<rightharpoonup> 'v)" where
  "py_delitem d k key_repr = (if d k = None then Inl (KeyError key_repr) else Inr (d(k := None)))"

text \<open>
  \<open>Environment.__del__\<close>: the engine is destroyed, then the entry deleted; an
  \<open>AttributeError\<close>, \<open>KeyError\<close> or \<open>TypeError\<close> of the two statements is passed over.
  The call of the library returns, as every call with the handle of a constructed
  environment does while the interpreter is running (the source's comment puts the other
  two exceptions at interpreter shutdown), so the \<open>KeyError\<close> of a missing entry is the
  one exception that arises.
\<close>

definition Environment_del ::
  "'n lib \<Rightarrow> Environment \<Rightarrow> ('n, 'w) state \<Rightarrow> (py_exception + unit) \<times> ('n, 'w) state" where
  "Environment_del L self s =
     (let (_, n1) = DestroyEnvironment L (env_ptr self) (native s);
          s1 = s\<lparr>native := n1\<rparr>
      in case py_delitem (ENVIRONMENT_DATA s1) (env_ptr self) (cdata_repr (env_ptr self)) of
           Inr d \<Rightarrow> (Inr (), s1\<lparr>ENVIRONMENT_DATA := d\<rparr>)
         | Inl error \<Rightarrow>
             if exc_class error \<in> set [''AttributeError'', ''KeyError'', ''TypeError'']
             then (Inr (), s1) else (Inl error, s1))"

text \<open>\<open>load\<close>, \<open>save\<close>, \<open>batch_star\<close>, \<open>build\<close>, \<open>eval\<close>, \<open>reset\<close> and \<open>clear\<close>.\<close>

definition load ::
  "'n lib \<Rightarrow> Environment \<Rightarrow> string \<Rightarrow> ('n, 'w) state \<Rightarrow> (py_exception + unit) \<times> ('n, 'w) state" where
  "load L self path s =
     (let (ret, n1) = EnvBload L (env_ptr self) path (native s)
      in if ret \<noteq> 1
         then (let (ret, n2) = EnvLoad L (env_ptr self) path n1
               in if ret \<noteq> 1
                  then (Inl (CLIPSError (last_message L (env_ptr self) n2)), s\<lparr>native := n2\<rparr>)
                  else (Inr (), s\<lparr>native := n2\<rparr>))
         else (Inr (), s\<lparr>native := n1\<rparr>))"

definition save ::
  "'n lib \<Rightarrow> Environment \<Rightarrow> string \<Rightarrow> bool \<Rightarrow> ('n, 'w) state
     \<Rightarrow> (py_exception + unit) \<times> ('n, 'w) state" where
  "save L self path binary s =
     (let (ret, n1) = (if binary then EnvBsave L (env_ptr self) path (native s)
                       else EnvSave L (env_ptr self) path (native s))
      in if ret = 0
         then (Inl (CLIPSError (last_message L (env_ptr self) n1)), s\<lparr>native := n1\<rparr>)
         else (Inr (), s\<lparr>native := n1\<rparr>))"

definition batch_star ::
  "'n lib \<Rightarrow> Environment \<Rightarrow> string \<Rightarrow> ('n, 'w) state \<Rightarrow> (py_exception + unit) \<times> ('n, 'w) state" where
  "batch_star L self path s =
     (let (ret, n1) = EnvBatchStar L (env_ptr self) path (native s)
      in if ret \<noteq> 1
         then (Inl (CLIPSError (last_message L (env_ptr self) n1)), s\<lparr>native := n1\<rparr>)
         else (Inr (), s\<lparr>native := n1\<rparr>))"

definition build ::
  "'n lib \<Rightarrow> Environment \<Rightarrow> string \<Rightarrow> ('n, 'w) state \<Rightarrow> (py_exception + unit) \<times> ('n, 'w) state" where
  "build L self construct_text s =
     (let (ret, n1) = EnvBuild L (env_ptr self) construct_text (native s)
      in if ret \<noteq> 1
         then (Inl (CLIPSError (last_message L (env_ptr self) n1)), s\<lparr>native := n1\<rparr>)
         else (Inr (), s\<lparr>native := n1\<rparr>))"

definition eval ::
  "'n lib \<Rightarrow> Environment \<Rightarrow> string \<Rightarrow> ('n, 'w) state
     \<Rightarrow> (py_exception + py_value) \<times> ('n, 'w) state" where
  "eval L self construct_text s =
     (let ((ret, data), n1) = EnvEval L (env_ptr self) construct_text (native s)
      in if ret \<noteq> 1
         then (Inl (CLIPSError (last_message L (env_ptr self) n1)), s\<lparr>native := n1\<rparr>)
         else (Inr (data_value data), s\<lparr>native := n1\<rparr>))"

definition reset ::
  "'n lib \<Rightarrow> Environment \<Rightarrow> ('n, 'w) state \<Rightarrow> (py_exception + unit) \<times> ('n, 'w) state" where
  "reset L self s =
     (let (_, n1) = EnvReset L (env_ptr self) (native s) in (Inr (), s\<lparr>native := n1\<rparr>))"

definition clear ::
  "'n lib \<Rightarrow> Environment \<Rightarrow> ('n, 'w) state \<Rightarrow> (py_exception + unit) \<times> ('n, 'w) state" where
  "clear L self s =
     (let (_, n1) = EnvClear L (env_ptr self) (native s) in (Inr (), s\<lparr>native := n1\<rparr>))"

text \<open>
  \<open>define_function\<close>: the callable is stored under its \<open>__name__\<close> in the registry of
  the environment's entry; \<open>ENVIRONMENT_DATA[self._env]\<close> raises \<open>KeyError\<close> when the
  entry is missing.
\<close>

definition define_function ::
  "Environment \<Rightarrow> 'w py_function \<Rightarrow> ('n, 'w) state \<Rightarrow> (py_exception + unit) \<times> ('n, 'w) state" where
  "define_function self function s =
     (case ENVIRONMENT_DATA s (env_ptr self) of
        None \<Rightarrow> (Inl (KeyError (cdata_repr (env_ptr self))), s)
      | Some env_data \<Rightarrow>
          (Inr (),
           s\<lparr>ENVIRONMENT_DATA :=
               (ENVIRONMENT_DATA s)(env_ptr self \<mapsto>
                 env_data\<lparr>user_functions := (user_functions env_data)(fn_name function \<mapsto> function)\<rparr>)\<rparr>))"

text \<open>The exception a call ended with, if any.\<close>

definition raised :: "(py_exception + 'a) \<times> 's \<Rightarrow> py_exception option" where
  "raised r = (case fst r of Inl error \<Rightarrow> Some error | Inr _ \<Rightarrow> None)"

subsection \<open>The engine behind reset and clear\<close>

text \<open>
  Modelled from the spec: the engine that \<open>lib.CreateEnvironment\<close>, \<open>lib.EnvReset\<close>,
  \<open>lib.EnvClear\<close> and \<open>lib.DestroyEnvironment\<close> work on is the external CLIPS library,
  which is not among the sources. The definitions of this subsection follow the spec: its
  data model (fact, template, rule, activation), the fact store (4.1), the pattern matcher
  (4.2), the agenda (4.3), the execution loop (4.4) and the lifecycle (4.5).
\<close>

text \<open>
  A fact has an identifier, a template reference (or none) and its slot values. A template
  has a name and slot definitions: name, type constraint, default, multiplicity.
\<close>

record fact =
  fact_id :: nat
  fact_template :: "string option"
  fact_values :: "clips_data list"

record slot =
  slot_name :: string
  slot_type :: "CLIPSType option"
  slot_default :: "clips_data option"
  slot_multi :: bool

record template =
  template_name :: string
  template_slots :: "slot list"

text \<open>
  A pattern filters facts by template and slot constraints; a slot constraint is a
  constant or a variable, and a variable bound by an earlier slot or pattern must carry an
  equal value. An action asserts a fact built from the bindings, retracts the fact matched
  by one of the rule's patterns, invokes a user function by name, or halts the loop.
\<close>

datatype pattern_term = Constant clips_data | Variable string

type_synonym pattern = "string option \<times> pattern_term list"

type_synonym binding = "(string \<times> clips_data) list"

datatype action =
    Assert_action "string option" "pattern_term list"
  | Retract_action nat
  | Call_action string "pattern_term list"
  | Halt_action

record rule =
  rule_name :: string
  salience :: int
  lhs :: "pattern list"
  rhs :: "action list"

text \<open>An activation: the rule and the tuple of facts (by identifier) satisfying its patterns.\<close>

record activation =
  act_rule :: rule
  act_facts :: "nat list"

datatype strategy = Depth | Breadth | Lex | Mea

datatype loop_state = Idle | Running | Halted

datatype engine_error = ConstraintError | NotFound

text \<open>
  The engine of one environment. The agenda is kept in the order the activations were
  created, so an earlier position is a smaller activation identifier.
\<close>

record engine =
  facts :: "fact list"
  next_fact_id :: nat
  templates :: "template list"
  rules :: "rule list"
  agenda :: "activation list"
  strategy :: strategy
  loop_state :: loop_state

text \<open>\<open>create()\<close>: an empty fact store, rule registry and agenda.\<close>

definition new_engine :: engine where
  "new_engine = \<lparr>facts = [], next_fact_id = 0, templates = [], rules = [], agenda = [],
     strategy = Depth, loop_state = Idle\<rparr>"

text \<open>
  \<open>reset()\<close> clears all facts and activations and retains the definitions; a halted loop
  is halted until reset. Fact identifiers are never reused, so the counter stays.
  \<open>clear()\<close> also drops the definitions, returning to the post-create state.
\<close>

definition engine_reset :: "engine \<Rightarrow> engine" where
  "engine_reset e = e\<lparr>facts := [], agenda := [], loop_state := Idle\<rparr>"

definition engine_clear :: "engine \<Rightarrow> engine" where
  "engine_clear e = new_engine"

subsubsection \<open>Pattern matcher\<close>

fun match_term :: "pattern_term \<Rightarrow> clips_data \<Rightarrow> binding \<Rightarrow> binding option" where
  "match_term (Constant c) v b = (if c = v then Some b else None)"
| "match_term (Variable x) v b =
     (case map_of b x of
        None \<Rightarrow> Some ((x, v) # b)
      | Some v' \<Rightarrow> if v' = v then Some b else None)"

fun match_terms :: "pattern_term list \<Rightarrow> clips_data list \<Rightarrow> binding \<Rightarrow> binding option" where
  "match_terms [] [] b = Some b"
| "match_terms (t # ts) (v # vs) b =
     (case match_term t v b of None \<Rightarrow> None | Some b' \<Rightarrow> match_terms ts vs b')"
| "match_terms _ _ b = None"

definition match_pattern :: "pattern \<Rightarrow> fact \<Rightarrow> binding \<Rightarrow> binding option" where
  "match_pattern p f b =
     (if fact_template f = fst p then match_terms (snd p) (fact_values f) b else None)"

text \<open>
  The join over the patterns of a rule: every tuple of facts, one per pattern in order,
  with consistent bindings.
\<close>

fun join :: "pattern list \<Rightarrow> fact list \<Rightarrow> binding \<Rightarrow> (nat list \<times> binding) list" where
  "join [] fs b = [([], b)]"
| "join (p # ps) fs b =
     concat (map (\<lambda>f. case match_pattern p f b of
                          None \<Rightarrow> []
                        | Some b' \<Rightarrow> map (\<lambda>(ids, b''). (fact_id f # ids, b'')) (join ps fs b')) fs)"

definition rule_matches :: "rule \<Rightarrow> fact list \<Rightarrow> activation list" where
  "rule_matches r fs = map (\<lambda>(ids, b). \<lparr>act_rule = r, act_facts = ids\<rparr>) (join (lhs r) fs [])"

subsubsection \<open>Agenda\<close>

text \<open>Inserting an activation whose rule and fact tuple are on the agenda is a no-op.\<close>

definition insert_activation :: "activation \<Rightarrow> activation list \<Rightarrow> activation list" where
  "insert_activation a ag = (if a \<in> set ag then ag else ag @ [a])"

definition top_salience :: "activation list \<Rightarrow> int" where
  "top_salience ag = fold (\<lambda>a m. max (salience (act_rule a)) m) ag (salience (act_rule (hd ag)))"

text \<open>
  The top activation: of those of the highest salience, the most recently activated under
  \<open>depth\<close>, and the oldest under \<open>breadth\<close>; for \<open>lex\<close> and \<open>mea\<close>, which the spec
  leaves open, the final tie-break alone decides (the oldest).
\<close>

definition peek :: "strategy \<Rightarrow> activation list \<Rightarrow> activation option" where
  "peek st ag =
     (if ag = [] then None
      else let best = filter (\<lambda>a. salience (act_rule a) = top_salience ag) ag
           in Some (case st of Depth \<Rightarrow> last best | _ \<Rightarrow> hd best))"

definition pop :: "strategy \<Rightarrow> activation list \<Rightarrow> (activation \<times> activation list) option" where
  "pop st ag = (case peek st ag of None \<Rightarrow> None | Some a \<Rightarrow> Some (a, remove1 a ag))"

subsubsection \<open>Fact store\<close>

definition has_type :: "CLIPSType option \<Rightarrow> clips_data \<Rightarrow> bool" where
  "has_type ty v = (case ty of None \<Rightarrow> True | Some t \<Rightarrow> clips_type v = t)"

definition slot_accepts :: "slot \<Rightarrow> clips_data \<Rightarrow> bool" where
  "slot_accepts sl v =
     (case v of
        Multifield_data vs \<Rightarrow> slot_multi sl \<and> list_all (has_type (slot_type sl)) vs
      | _ \<Rightarrow> \<not> slot_multi sl \<and> has_type (slot_type sl) v)"

definition conforms :: "template list \<Rightarrow> string option \<Rightarrow> clips_data list \<Rightarrow> bool" where
  "conforms ts tmpl vs =
     (case tmpl of
        None \<Rightarrow> True
      | Some n \<Rightarrow>
          (case find (\<lambda>t. template_name t = n) ts of
             None \<Rightarrow> False
           | Some t \<Rightarrow> list_all2 slot_accepts (template_slots t) vs))"

text \<open>
  \<open>assert\<close>: \<open>ConstraintError\<close> when the values violate the template; otherwise the fact
  gets the next identifier and the matcher is notified before the call returns: every
  match the new fact takes part in becomes an activation.
\<close>

definition notify_assert :: "nat \<Rightarrow> engine \<Rightarrow> engine" where
  "notify_assert i e =
     e\<lparr>agenda := fold insert_activation
          (concat (map (\<lambda>r. filter (\<lambda>a. i \<in> set (act_facts a)) (rule_matches r (facts e))) (rules e)))
          (agenda e)\<rparr>"

definition assert_fact ::
  "string option \<Rightarrow> clips_data list \<Rightarrow> engine \<Rightarrow> engine_error + (nat \<times> engine)" where
  "assert_fact tmpl vs e =
     (if \<not> conforms (templates e) tmpl vs then Inl ConstraintError
      else Inr (next_fact_id e,
             notify_assert (next_fact_id e)
               (e\<lparr>facts := facts e @ [\<lparr>fact_id = next_fact_id e, fact_template = tmpl, fact_values = vs\<rparr>],
                  next_fact_id := Suc (next_fact_id e)\<rparr>)))"

text \<open>
  \<open>retract\<close>: \<open>NotFound\<close> for an unknown identifier; otherwise the fact goes, and with
  it every activation that refers to it.
\<close>

definition retract :: "nat \<Rightarrow> engine \<Rightarrow> engine_error + engine" where
  "retract i e =
     (if i \<notin> fact_id ` set (facts e) then Inl NotFound
      else Inr (e\<lparr>facts := filter (\<lambda>f. fact_id f \<noteq> i) (facts e),
                  agenda := filter (\<lambda>a. i \<notin> set (act_facts a)) (agenda e)\<rparr>))"

fun assert_all :: "(string option \<times> clips_data list) list \<Rightarrow> engine \<Rightarrow> engine_error + engine" where
  "assert_all [] e = Inr e"
| "assert_all ((tmpl, vs) # fs) e =
     (case assert_fact tmpl vs e of Inl err \<Rightarrow> Inl err | Inr (i, e') \<Rightarrow> assert_all fs e')"

subsubsection \<open>Definitions\<close>

text \<open>
  Defining a rule replaces a rule of the same name, with its activations, and indexes the
  patterns against the fact store.
\<close>

definition define_rule :: "rule \<Rightarrow> engine \<Rightarrow> engine" where
  "define_rule r e =
     e\<lparr>rules := filter (\<lambda>r'. rule_name r' \<noteq> rule_name r) (rules e) @ [r],
       agenda := fold insert_activation (rule_matches r (facts e))
          (filter (\<lambda>a. rule_name (act_rule a) \<noteq> rule_name r) (agenda e))\<rparr>"

definition define_template :: "template \<Rightarrow> engine \<Rightarrow> engine" where
  "define_template t e =
     e\<lparr>templates := filter (\<lambda>t'. template_name t' \<noteq> template_name t) (templates e) @ [t]\<rparr>"

subsubsection \<open>Execution loop\<close>

text \<open>The bindings of an activation: those of its fact tuple in the join.\<close>

definition binding_of :: "engine \<Rightarrow> activation \<Rightarrow> binding" where
  "binding_of e a =
     (case filter (\<lambda>(ids, b). ids = act_facts a) (join (lhs (act_rule a)) (facts e) []) of
        [] \<Rightarrow> []
      | (ids, b) # _ \<Rightarrow> b)"

fun instantiate :: "binding \<Rightarrow> pattern_term \<Rightarrow> clips_data" where
  "instantiate b (Constant c) = c"
| "instantiate b (Variable x) = (case map_of b x of None \<Rightarrow> Symbol_data ''nil'' | Some v \<Rightarrow> v)"

text \<open>
  The action sequence of a fired activation, with the number of actions \<open>max_steps\<close>
  still allows (\<open>None\<close>: no bound). An error of the fact store propagates; a call of a
  user function leaves the engine as it is, its failure being contained at the call site;
  \<open>halt\<close> ends the sequence in state \<open>Halted\<close>.
\<close>

fun execute ::
  "action list \<Rightarrow> activation \<Rightarrow> binding \<Rightarrow> nat option \<Rightarrow> engine
     \<Rightarrow> engine_error + (nat option \<times> engine)" where
  "execute [] a b steps e = Inr (steps, e)"
| "execute (act # acts) a b steps e =
     (if steps = Some 0 then Inr (steps, e)
      else
        (case act of
           Halt_action \<Rightarrow> Inr (map_option (\<lambda>n. n - 1) steps, e\<lparr>loop_state := Halted\<rparr>)
         | Call_action name ts \<Rightarrow> execute acts a b (map_option (\<lambda>n. n - 1) steps) e
         | Assert_action tmpl ts \<Rightarrow>
             (case assert_fact tmpl (map (instantiate b) ts) e of
                Inl err \<Rightarrow> Inl err
              | Inr (i, e') \<Rightarrow> execute acts a b (map_option (\<lambda>n. n - 1) steps) e')
         | Retract_action k \<Rightarrow>
             (if k < length (act_facts a)
              then (case retract (act_facts a ! k) e of
                      Inl err \<Rightarrow> Inl err
                    | Inr e' \<Rightarrow> execute acts a b (map_option (\<lambda>n. n - 1) steps) e')
              else Inl NotFound)))"

text \<open>
  The loop of \<open>run(max_steps?)\<close>: it pops the top activation and executes its actions
  until the agenda is empty or \<open>max_steps\<close> actions have executed (then \<open>Idle\<close>) or an
  action halts (then \<open>Halted\<close>). The result holds the names of the rules fired, in order.
  The loop need not end when there is no bound: it runs on fuel, and \<open>None\<close> says that
  the fuel ran out.
\<close>

fun run_loop ::
  "nat \<Rightarrow> nat option \<Rightarrow> engine \<Rightarrow> string list \<Rightarrow> (engine_error + string list \<times> engine) option" where
  "run_loop 0 steps e fired = None"
| "run_loop (Suc fuel) steps e fired =
     (if loop_state e = Halted then Some (Inr (fired, e))
      else if steps = Some 0 then Some (Inr (fired, e\<lparr>loop_state := Idle\<rparr>))
      else
        (case pop (strategy e) (agenda e) of
           None \<Rightarrow> Some (Inr (fired, e\<lparr>loop_state := Idle\<rparr>))
         | Some (a, ag) \<Rightarrow>
             (case execute (rhs (act_rule a)) a (binding_of e a) steps (e\<lparr>agenda := ag\<rparr>) of
                Inl err \<Rightarrow> Some (Inl err)
              | Inr (steps', e') \<Rightarrow> run_loop fuel steps' e' (fired @ [rule_name (act_rule a)]))))"

definition run :: "nat \<Rightarrow> nat option \<Rightarrow> engine \<Rightarrow> (engine_error + string list \<times> engine) option" where
  "run fuel max_steps e =
     (if loop_state e = Halted then Some (Inr ([], e))
      else run_loop fuel max_steps (e\<lparr>loop_state := Running\<rparr>) [])"

text \<open>
  A rule fires upon facts: once the facts are asserted, in their order, and the loop is
  run, the rule is among the rules fired.
\<close>

definition fires ::
  "nat \<Rightarrow> nat option \<Rightarrow> (string option \<times> clips_data list) list \<Rightarrow> engine \<Rightarrow> string \<Rightarrow> bool" where
  "fires fuel max_steps fs e name =
     (case assert_all fs e of
        Inl err \<Rightarrow> False
      | Inr e' \<Rightarrow>
          (case run fuel max_steps e' of
             Some (Inr (fired, e'')) \<Rightarrow> name \<in> set fired
           | _ \<Rightarrow> False))"

text \<open>
  The engine that holds the definitions of an engine and nothing else: no facts, no
  activations, the loop idle, and no identifier given out yet.
\<close>

definition definitions_only :: "engine \<Rightarrow> engine" where
  "definitions_only e = e\<lparr>facts := [], next_fact_id := 0, agenda := [], loop_state := Idle\<rparr>"

text \<open>An engine with every fact identifier moved up by \<open>k\<close>.\<close>

definition shift_fact :: "nat \<Rightarrow> fact \<Rightarrow> fact" where
  "shift_fact k f = f\<lparr>fact_id := fact_id f + k\<rparr>"

definition shift_activation :: "nat \<Rightarrow> activation \<Rightarrow> activation" where
  "shift_activation k a = a\<lparr>act_facts := map (\<lambda>i. i + k) (act_facts a)\<rparr>"

definition shift_ids :: "nat \<Rightarrow> engine \<Rightarrow> engine" where
  "shift_ids k e =
     e\<lparr>facts := map (shift_fact k) (facts e), next_fact_id := next_fact_id e + k,
       agenda := map (shift_activation k) (agenda e)\<rparr>"

subsubsection \<open>The library over these engines\<close>

record engines =
  engine_of :: "handle \<rightharpoonup> engine"
  next_handle :: handle

definition no_engines :: engines where
  "no_engines = \<lparr>engine_of = Map.empty, next_handle = 1\<rparr>"

text \<open>
  The library over these engines. The loader and the evaluator are outside the spec:
  the file operations, \<open>EnvBuild\<close> and \<open>EnvEval\<close> report failure and change nothing.
\<close>

definition on_engine :: "(engine \<Rightarrow> engine) \<Rightarrow> handle \<Rightarrow> engines \<Rightarrow> int \<times> engines" where
  "on_engine f h n =
     (case engine_of n h of
        None \<Rightarrow> (0, n)
      | Some e \<Rightarrow> (1, n\<lparr>engine_of := (engine_of n)(h \<mapsto> f e)\<rparr>))"

definition spec_lib :: "engines lib" where
  "spec_lib = \<lparr>
     CreateEnvironment = (\<lambda>n. (next_handle n,
        n\<lparr>engine_of := (engine_of n)(next_handle n \<mapsto> new_engine), next_handle := Suc (next_handle n)\<rparr>)),
     DestroyEnvironment = (\<lambda>h n. (if engine_of n h = None then 0 else 1,
        n\<lparr>engine_of := (engine_of n)(h := None)\<rparr>)),
     lib_define_function = (\<lambda>h n. (1, n)),
     add_to_environment = (\<lambda>router h n. n),
     last_message = (\<lambda>h n. []),
     EnvBload = (\<lambda>h path n. (0, n)),
     EnvLoad = (\<lambda>h path n. (0, n)),
     EnvBsave = (\<lambda>h path n. (0, n)),
     EnvSave = (\<lambda>h path n. (0, n)),
     EnvBatchStar = (\<lambda>h path n. (0, n)),
     EnvBuild = (\<lambda>h text n. (0, n)),
     EnvEval = (\<lambda>h text n. ((0, Symbol_data ''FALSE''), n)),
     EnvReset = on_engine engine_reset,
     EnvClear = on_engine engine_clear\<rparr>"

subsection \<open>A session for the examples\<close>

text \<open>
  Callables over a program state that counts the calls made: \<open>echo\<close> returns the
  list of its arguments, \<open>note\<close> returns \<open>None\<close>, \<open>fail\<close> raises
  \<open>ValueError('bad value')\<close>, \<open>quit\<close> calls \<open>sys.exit(0)\<close> and \<open>stop\<close> raises
  \<open>KeyboardInterrupt()\<close>.
\<close>

definition echo_fn :: "nat py_function" where
  "echo_fn = \<lparr>fn_name = ''echo'', fn_call = (\<lambda>arguments calls. (Inr (PyList arguments), Suc calls))\<rparr>"

definition note_fn :: "nat py_function" where
  "note_fn = \<lparr>fn_name = ''note'', fn_call = (\<lambda>arguments calls. (Inr PyNone, Suc calls))\<rparr>"

definition fail_fn :: "nat py_function" where
  "fail_fn = \<lparr>fn_name = ''fail'',
     fn_call = (\<lambda>arguments calls. (Inl (PyExc ''ValueError'' ''bad value'' True), Suc calls))\<rparr>"

definition quit_fn :: "nat py_function" where
  "quit_fn = \<lparr>fn_name = ''quit'',
     fn_call = (\<lambda>arguments calls. (Inl (PyExc ''SystemExit'' ''0'' False), Suc calls))\<rparr>"

definition stop_fn :: "nat py_function" where
  "stop_fn = \<lparr>fn_name = ''stop'',
     fn_call = (\<lambda>arguments calls. (Inl (PyExc ''KeyboardInterrupt'' [] False), Suc calls))\<rparr>"

text \<open>A second callable named \<open>echo\<close>, which returns its arguments reversed.\<close>

definition echo_again :: "nat py_function" where
  "echo_again = \<lparr>fn_name = ''echo'',
     fn_call = (\<lambda>arguments calls. (Inr (PyList (rev arguments)), Suc calls))\<rparr>"

definition registry :: "string \<rightharpoonup> nat py_function" where
  "registry = [''echo'' \<mapsto> echo_fn, ''note'' \<mapsto> note_fn, ''fail'' \<mapsto> fail_fn, ''quit'' \<mapsto> quit_fn,
     ''stop'' \<mapsto> stop_fn]"

definition python_router :: ErrorRouter where
  "python_router = \<lparr>router_name = ''python-error-router'', router_priority = 40\<rparr>"

definition session :: "(string list, nat) state" where
  "session =
     \<lparr>ENVIRONMENT_DATA = [4096 \<mapsto> \<lparr>user_functions = registry, error_router = python_router\<rparr>],
      native = [], world = 0\<rparr>"

text \<open>
  A library that keeps a journal of the calls it receives. \<open>EnvBload\<close> accepts
  \<open>rules.bin\<close> only and \<open>EnvLoad\<close> \<open>rules.clp\<close> only; saving fails on the empty
  path; \<open>EnvBatchStar\<close> accepts \<open>batch.clp\<close>, \<open>EnvBuild\<close> and \<open>EnvEval\<close> accept
  one text each; \<open>EnvReset\<close> and \<open>EnvClear\<close> refuse: they report 0, change nothing but
  the journal, and leave a message on the error router.
\<close>

definition journal_lib :: "string list lib" where
  "journal_lib = \<lparr>
     CreateEnvironment = (\<lambda>n. (4096 + length n, n @ [''CreateEnvironment''])),
     DestroyEnvironment = (\<lambda>h n. (1, n @ [''DestroyEnvironment''])),
     lib_define_function = (\<lambda>h n. (1, n @ [''define_function''])),
     add_to_environment = (\<lambda>router h n. n @ [''EnvAddRouter'']),
     last_message = (\<lambda>h n. (case rev n of [] \<Rightarrow> [] | c # _ \<Rightarrow> c @ '' failed'')),
     EnvBload = (\<lambda>h path n. (if path = ''rules.bin'' then 1 else 0, n @ [''EnvBload''])),
     EnvLoad = (\<lambda>h path n. (if path = ''rules.clp'' then 1 else 0, n @ [''EnvLoad''])),
     EnvBsave = (\<lambda>h path n. (if path = [] then 0 else 1, n @ [''EnvBsave''])),
     EnvSave = (\<lambda>h path n. (if path = [] then 0 else 1, n @ [''EnvSave''])),
     EnvBatchStar = (\<lambda>h path n. (if path = ''batch.clp'' then 1 else 0, n @ [''EnvBatchStar''])),
     EnvBuild = (\<lambda>h text n. (if text = ''(defrule hello =>)'' then 1 else 0, n @ [''EnvBuild''])),
     EnvEval = (\<lambda>h text n.
        (if text = ''(+ 1 2)'' then (1, Integer_data 3) else (0, Symbol_data ''FALSE''),
         n @ [''EnvEval''])),
     EnvReset = (\<lambda>h n. (0, n @ [''EnvReset''])),
     EnvClear = (\<lambda>h n. (0, n @ [''EnvClear'']))\<rparr>"

definition journal_start :: "(string list, nat) state" where
  "journal_start = \<lparr>ENVIRONMENT_DATA = Map.empty, native = [], world = 0\<rparr>"

definition engines_start :: "(engines, nat) state" where
  "engines_start = \<lparr>ENVIRONMENT_DATA = Map.empty, native = no_engines, world = 0\<rparr>"

text \<open>
  A template for readings of a room, and a rule joining two patterns on the room: smoke
  read in a room that is occupied. The rule asserts an alarm for the room and calls a user
  function.
\<close>

definition reading_template :: template where
  "reading_template = \<lparr>template_name = ''reading'',
     template_slots =
       [\<lparr>slot_name = ''room'', slot_type = Some SYMBOL, slot_default = None, slot_multi = False\<rparr>,
        \<lparr>slot_name = ''kind'', slot_type = Some SYMBOL, slot_default = None, slot_multi = False\<rparr>]\<rparr>"

definition alarm_rule :: rule where
  "alarm_rule = \<lparr>rule_name = ''alarm'', salience = 0,
     lhs = [(Some ''reading'', [Variable ''room'', Constant (Symbol_data ''smoke'')]),
            (None, [Constant (Symbol_data ''occupied''), Variable ''room''])],
     rhs = [Assert_action None [Constant (Symbol_data ''alarm''), Variable ''room''],
            Call_action ''echo'' [Variable ''room'']]\<rparr>"

definition alarm_facts :: "(string option \<times> clips_data list) list" where
  "alarm_facts =
     [(Some ''reading'', [Symbol_data ''hall'', Symbol_data ''smoke'']),
      (Some ''reading'', [Symbol_data ''kitchen'', Symbol_data ''smoke'']),
      (None, [Symbol_data ''occupied'', Symbol_data ''kitchen''])]"

text \<open>
  The engine after the definitions, the three facts and a run in which the rule fired,
  and a state whose environment 1 has that engine.
\<close>

definition alarm_engine :: engine where
  "alarm_engine =
     \<lparr>facts =
        [\<lparr>fact_id = 0, fact_template = Some ''reading'',
           fact_values = [Symbol_data ''hall'', Symbol_data ''smoke'']\<rparr>,
         \<lparr>fact_id = 1, fact_template = Some ''reading'',
           fact_values = [Symbol_data ''kitchen'', Symbol_data ''smoke'']\<rparr>,
         \<lparr>fact_id = 2, fact_template = None,
           fact_values = [Symbol_data ''occupied'', Symbol_data ''kitchen'']\<rparr>,
         \<lparr>fact_id = 3, fact_template = None,
           fact_values = [Symbol_data ''alarm'', Symbol_data ''kitchen'']\<rparr>],
      next_fact_id = 4, templates = [reading_template], rules = [alarm_rule], agenda = [],
      strategy = Depth, loop_state = Idle\<rparr>"

definition alarm_state :: "(engines, nat) state" where
  "alarm_state =
     \<lparr>ENVIRONMENT_DATA = [1 \<mapsto> \<lparr>user_functions = registry, error_router = python_router\<rparr>],
      native = \<lparr>engine_of = [1 \<mapsto> alarm_engine], next_handle = 2\<rparr>,
      world = 0\<rparr>"

text \<open>A freshly created environment over the engines.\<close>

definition created :: "Environment \<times> (engines, nat) state" where
  "created = Environment_init spec_lib engines_start"

section \<open>Properties of the callback\<close>

subsection \<open>The argument loop and the call\<close>

text \<open>
  The loop over \<open>range(2, argnum + 1)\<close> collects the values of the arguments after the
  first, in their order.
\<close>

lemma collect_arguments_from:
  "collect_arguments args [Suc j ..< Suc (length args)] temp acc
     = acc @ map data_value (drop j args)"
proof (induction "length args - j" arbitrary: j temp acc)
  case 0
  then show ?case by simp
next
  case (Suc k)
  then have lt: "j < length args" by linarith
  have step: "[Suc j ..< Suc (length args)] = Suc j # [Suc (Suc j) ..< Suc (length args)]"
    using lt by (simp add: upt_rec)
  have k: "k = length args - Suc j" using Suc.hyps(2) by linarith
  have dr: "drop j args = args ! j # drop (Suc j) args"
    using lt by (simp add: Cons_nth_drop_Suc)
  have unk: "EnvRtnUnknown args (Suc j) temp = args ! j"
    using lt by (simp add: EnvRtnUnknown_def)
  show ?case
    unfolding step dr
    using Suc.hyps(1)[OF k, of "args ! j" "acc @ [data_value (args ! j)]"]
    by (simp add: unk del: upt_Suc)
qed

lemma collect_arguments_all:
  "collect_arguments (a # rest) [2 ..< Suc (EnvRtnArgCount (a # rest))] temp [] = map data_value rest"
  using collect_arguments_from [of "a # rest" 1 temp "[]"]
  by (simp add: EnvRtnArgCount_def numeral_2_eq_2 del: upt_Suc)

lemma type_check_symbol:
  "EnvArgTypeCheck (Symbol_data name # rest) 1 SYMBOL = Some (Symbol_data name)"
  by (simp add: EnvArgTypeCheck_def)

lemma type_check_fails:
  "args = [] \<or> clips_type (hd args) \<noteq> SYMBOL \<Longrightarrow> EnvArgTypeCheck args 1 SYMBOL = None"
  by (cases args) (auto simp: EnvArgTypeCheck_def)

lemma python_function_call:
  "call_user_function env name (map data_value rest) s = (outcome, w) \<Longrightarrow>
   python_function env (Symbol_data name # rest) data s =
     (case outcome of
        Inr ret \<Rightarrow> (Inr (), (if ret \<noteq> PyNone then ret else Symbol ''nil''), s\<lparr>world := w\<rparr>)
      | Inl error \<Rightarrow>
          if exc_is_Exception error
          then (Inr (), PyStr (exc_class error @ '': '' @ exc_str error), s\<lparr>world := w\<rparr>)
          else (Inl error, data, s\<lparr>world := w\<rparr>))"
  unfolding python_function_def Let_def type_check_symbol
  by (simp add: collect_arguments_all del: upt_Suc)

lemma call_registered:
  "ENVIRONMENT_DATA s env = Some env_data \<Longrightarrow> user_functions env_data name = Some f \<Longrightarrow>
   call_user_function env name arguments s = fn_call f arguments (world s)"
  by (simp add: call_user_function_def)

lemma call_unregistered:
  "ENVIRONMENT_DATA s env = Some env_data \<Longrightarrow> user_functions env_data name = None \<Longrightarrow>
   call_user_function env name arguments s = (Inl (KeyError (py_repr name)), world s)"
  by (simp add: call_user_function_def)

lemma call_no_entry:
  "ENVIRONMENT_DATA s env = None \<Longrightarrow>
   call_user_function env name arguments s = (Inl (KeyError (cdata_repr env)), world s)"
  by (simp add: call_user_function_def)

lemma session_entry:
  "ENVIRONMENT_DATA session 4096 = Some \<lparr>user_functions = registry, error_router = python_router\<rparr>"
  by (simp add: session_def)

lemma py_repr_missing: "py_repr ''missing'' = [CHR 0x27] @ ''missing'' @ [CHR 0x27]"
  by (simp add: py_repr_def repr_char_def py_printable_def Let_def)

subsection \<open>Exceptions, results and arguments\<close>




text \<open>
  Claim C2, as amended. When the environment has an entry and the name given by the first
  argument is not in its registry, the lookup's \<open>KeyError\<close> is raised inside the
  \<open>try\<close> block and caught like a callable's exception: the callback returns normally,
  the result object holds the string \<open>KeyError: \<close> followed by the \<open>repr\<close> of the
  name, and the state is unchanged.
\<close>

theorem unregistered_name_gives_KeyError_text:
  assumes "ENVIRONMENT_DATA s env = Some env_data"
    and "user_functions env_data name = None"
  shows "python_function env (Symbol_data name # rest) data s
           = (Inr (), PyStr (''KeyError: '' @ py_repr name), s)"
  using python_function_call [of env name rest s "Inl (KeyError (py_repr name))" "world s" data]
    call_unregistered [OF assms] by (simp add: KeyError_def)

text \<open>The theorem at a call in the example session.\<close>

theorem unregistered_name_gives_KeyError_text_witness:
  "python_function 4096 [Symbol_data ''absent'', Integer_data 1] PyNone session
     = (Inr (), PyStr (''KeyError: '' @ py_repr ''absent''), session)"
  using unregistered_name_gives_KeyError_text [OF session_entry, of "''absent''" "[Integer_data 1]" PyNone]
  by (simp add: registry_def)

text \<open>
  Claim C2 as stated fails: calling the unregistered name \<open>missing\<close> raises nothing, and
  the result object holds the text \<open>KeyError: 'missing'\<close>.
\<close>

theorem unregistered_name_does_not_raise:
  "python_function 4096 [Symbol_data ''missing'', Integer_data 1] PyNone session
     = (Inr (), PyStr (''KeyError: '' @ [CHR 0x27] @ ''missing'' @ [CHR 0x27]), session)"
  using python_function_call [of 4096 "''missing''" "[Integer_data 1]" session
      "Inl (KeyError (py_repr ''missing''))" 0 PyNone]
    call_unregistered [OF session_entry, of "''missing''" "[PyInt 1]"]
  by (simp add: registry_def KeyError_def py_repr_missing) (simp add: session_def)

text \<open>
  Claim C5, as amended. For a call \<open>(python-function name arg1 ... argn)\<close> of a registered
  callable, the callable is applied to exactly the values of \<open>arg1 ... argn\<close>, in the
  order of the call; when it returns \<open>ret\<close>, the result object holds \<open>ret\<close>, or the
  symbol \<open>nil\<close> when \<open>ret\<close> is \<open>None\<close>.
\<close>

theorem python_function_passes_arguments:
  assumes "ENVIRONMENT_DATA s env = Some env_data"
    and "user_functions env_data name = Some f"
    and "fn_call f (map data_value rest) (world s) = (Inr ret, w)"
  shows "python_function env (Symbol_data name # rest) data s
           = (Inr (), (if ret = PyNone then Symbol ''nil'' else ret), s\<lparr>world := w\<rparr>)"
  using python_function_call [of env name rest s "Inr ret" w data]
    call_registered [OF assms(1,2)] assms(3) by simp

text \<open>The theorem at a call in the example session.\<close>

theorem python_function_passes_arguments_witness:
  "python_function 4096
     [Symbol_data ''echo'', Integer_data 1, String_data ''two'', Symbol_data ''three''] PyNone session
     = (Inr (), PyList [PyInt 1, PyStr ''two'', Symbol ''three''], session\<lparr>world := 1\<rparr>)"
  using python_function_passes_arguments [OF session_entry, of "''echo''" echo_fn
      "[Integer_data 1, String_data ''two'', Symbol_data ''three'']"
      "PyList [PyInt 1, PyStr ''two'', Symbol ''three'']" 1 PyNone]
  by (simp add: session_def registry_def echo_fn_def)

text \<open>
  Claim C5 as stated fails for a callable that returns \<open>None\<close>: the result object does
  not hold the return value.
\<close>

theorem None_is_not_stored:
  "fst (fn_call note_fn [PyInt 7] 0) = Inr PyNone \<and>
   fst (snd (python_function 4096 [Symbol_data ''note'', Integer_data 7] (PyInt 0) session)) \<noteq> PyNone"
  using python_function_call [of 4096 "''note''" "[Integer_data 7]" session "Inr PyNone" 1 "PyInt 0"]
    call_registered [OF session_entry, of "''note''" note_fn "[PyInt 7]"]
  by (simp add: session_def registry_def note_fn_def)

text \<open>
  Claim C8. When the registered callable returns \<open>None\<close> and raises nothing, the result
  object of the callback holds the symbol \<open>nil\<close>.
\<close>

theorem None_result_is_nil:
  assumes "ENVIRONMENT_DATA s env = Some env_data"
    and "user_functions env_data name = Some f"
    and "fn_call f (map data_value rest) (world s) = (Inr PyNone, w)"
  shows "python_function env (Symbol_data name # rest) data s
           = (Inr (), Symbol ''nil'', s\<lparr>world := w\<rparr>)"
  using python_function_call [of env name rest s "Inr PyNone" w data]
    call_registered [OF assms(1,2)] assms(3) by simp

text \<open>The theorem at a call in the example session.\<close>

theorem None_result_is_nil_witness:
  "python_function 4096 [Symbol_data ''note'', String_data ''seen''] (PyInt 0) session
           = (Inr (), Symbol ''nil'', session\<lparr>world := 1\<rparr>)"
  using None_result_is_nil [OF session_entry, of "''note''" note_fn "[String_data ''seen'']" 1 "PyInt 0"]
  by (simp add: session_def registry_def note_fn_def)

text \<open>
  Claim C10. When the first argument of the call is not a \<open>SYMBOL\<close> (or there is none),
  the callback raises \<open>RuntimeError\<close>: the exception leaves the function, the result
  object keeps the value it had, and the state is unchanged, so no callable has run.
\<close>

theorem not_a_symbol_raises_RuntimeError:
  assumes "args = [] \<or> clips_type (hd args) \<noteq> SYMBOL"
  shows "python_function env args data s = (Inl RuntimeError, data, s)"
  using type_check_fails [OF assms] by (simp add: python_function_def)

text \<open>The theorem at a call in the example session.\<close>

theorem not_a_symbol_raises_RuntimeError_witness:
  "python_function 4096 [String_data ''echo'', Integer_data 1] (PyInt 0) session
     = (Inl (PyExc ''RuntimeError'' [] True), PyInt 0, session)
   \<and> python_function 4096 [] (PyInt 0) session = (Inl (PyExc ''RuntimeError'' [] True), PyInt 0, session)"
  using not_a_symbol_raises_RuntimeError [of "[String_data ''echo'', Integer_data 1]" 4096 "PyInt 0" session]
    not_a_symbol_raises_RuntimeError [of "[]" 4096 "PyInt 0" session]
  by (simp add: RuntimeError_def)

section \<open>Properties of class Environment\<close>

subsection \<open>Registration\<close>

lemma define_function_live:
  "ENVIRONMENT_DATA s (env_ptr self) = Some env_data \<Longrightarrow>
   define_function self f s =
     (Inr (), s\<lparr>ENVIRONMENT_DATA := (ENVIRONMENT_DATA s)(env_ptr self \<mapsto>
        env_data\<lparr>user_functions := (user_functions env_data)(fn_name f \<mapsto> f)\<rparr>)\<rparr>)"
  by (simp add: define_function_def)

lemma Environment_init_entry:
  "Environment_init L s = (self, s') \<Longrightarrow>
   ENVIRONMENT_DATA s' (env_ptr self)
     = Some \<lparr>user_functions = Map.empty,
             error_router = \<lparr>router_name = ''python-error-router'', router_priority = 40\<rparr>\<rparr>"
  by (auto simp: Environment_init_def Let_def split: prod.splits)

text \<open>
  Claim C3. For an environment with its entry in \<open>ENVIRONMENT_DATA\<close> and two callables
  of the same name, both calls of \<open>define_function\<close> return normally, and afterwards the
  registry of the environment gives the second callable for that name.
\<close>

theorem define_function_last_write_wins:
  assumes "ENVIRONMENT_DATA s (env_ptr self) = Some env_data"
    and "fn_name g = fn_name f"
  shows "fst (define_function self f s) = Inr ()
       \<and> fst (define_function self g (snd (define_function self f s))) = Inr ()
       \<and> Option.bind
            (ENVIRONMENT_DATA (snd (define_function self g (snd (define_function self f s)))) (env_ptr self))
            (\<lambda>entry. user_functions entry (fn_name f)) = Some g"
proof -
  let ?s1 = "snd (define_function self f s)"
  let ?d1 = "env_data\<lparr>user_functions := (user_functions env_data)(fn_name f \<mapsto> f)\<rparr>"
  have first: "define_function self f s
      = (Inr (), s\<lparr>ENVIRONMENT_DATA := (ENVIRONMENT_DATA s)(env_ptr self \<mapsto> ?d1)\<rparr>)"
    by (rule define_function_live [OF assms(1)])
  have entry1: "ENVIRONMENT_DATA ?s1 (env_ptr self) = Some ?d1"
    by (simp add: first)
  have second: "define_function self g ?s1
      = (Inr (), ?s1\<lparr>ENVIRONMENT_DATA := (ENVIRONMENT_DATA ?s1)(env_ptr self \<mapsto>
           ?d1\<lparr>user_functions := (user_functions ?d1)(fn_name g \<mapsto> g)\<rparr>)\<rparr>)"
    by (rule define_function_live [OF entry1])
  show ?thesis
    unfolding second unfolding first using assms(2) by simp
qed

text \<open>The theorem for a freshly created environment and two callables named \<open>echo\<close>.\<close>

theorem define_function_last_write_wins_witness:
  "fst (define_function (fst (Environment_init journal_lib journal_start)) echo_fn
          (snd (Environment_init journal_lib journal_start))) = Inr ()
   \<and> fst (define_function (fst (Environment_init journal_lib journal_start)) echo_again
          (snd (define_function (fst (Environment_init journal_lib journal_start)) echo_fn
             (snd (Environment_init journal_lib journal_start))))) = Inr ()
   \<and> Option.bind
        (ENVIRONMENT_DATA
           (snd (define_function (fst (Environment_init journal_lib journal_start)) echo_again
              (snd (define_function (fst (Environment_init journal_lib journal_start)) echo_fn
                 (snd (Environment_init journal_lib journal_start))))))
           4096)
        (\<lambda>entry. user_functions entry ''echo'') = Some echo_again"
proof -
  obtain self s0 where init: "Environment_init journal_lib journal_start = (self, s0)"
    by (cases "Environment_init journal_lib journal_start")
  have ptr: "env_ptr self = 4096"
    using init by (auto simp: Environment_init_def journal_lib_def journal_start_def Let_def)
  have names: "fn_name echo_again = fn_name echo_fn" "fn_name echo_fn = ''echo''"
    by (simp_all add: echo_again_def echo_fn_def)
  show ?thesis
    using define_function_last_write_wins [OF Environment_init_entry [OF init] names(1)]
    by (simp add: init ptr names(2))
qed

subsection \<open>Destruction\<close>

lemma Environment_del_state:
  "Environment_del L self s
     = (Inr (), s\<lparr>native := snd (DestroyEnvironment L (env_ptr self) (native s)),
                  ENVIRONMENT_DATA := (ENVIRONMENT_DATA s)(env_ptr self := None)\<rparr>)"
proof (cases "ENVIRONMENT_DATA s (env_ptr self)")
  case None
  then have "(ENVIRONMENT_DATA s)(env_ptr self := None) = ENVIRONMENT_DATA s"
    by (simp add: fun_upd_idem)
  with None show ?thesis
    by (simp add: Environment_del_def py_delitem_def KeyError_def Let_def split: prod.splits)
next
  case (Some entry)
  then show ?thesis
    by (simp add: Environment_del_def py_delitem_def Let_def split: prod.splits)
qed

text \<open>
  Claim C7. After \<open>__del__\<close> the environment's handle is no key of
  \<open>ENVIRONMENT_DATA\<close>, whatever the state was: its registry and error router are gone
  from the map. No callable registered on it can be reached: a callback for that handle
  finds no entry, runs no callable and leaves the state as it is, its result being the
  text of the \<open>KeyError\<close>.
\<close>

theorem Environment_del_removes_entry:
  "fst (Environment_del L self s) = Inr ()
   \<and> ENVIRONMENT_DATA (snd (Environment_del L self s)) (env_ptr self) = None
   \<and> env_ptr self \<notin> dom (ENVIRONMENT_DATA (snd (Environment_del L self s)))
   \<and> python_function (env_ptr self) (Symbol_data name # rest) data (snd (Environment_del L self s))
       = (Inr (), PyStr (''KeyError: '' @ cdata_repr (env_ptr self)), snd (Environment_del L self s))"
proof -
  let ?s' = "snd (Environment_del L self s)"
  have gone: "ENVIRONMENT_DATA ?s' (env_ptr self) = None"
    by (simp add: Environment_del_state)
  have call: "python_function (env_ptr self) (Symbol_data name # rest) data ?s'
       = (Inr (), PyStr (''KeyError: '' @ cdata_repr (env_ptr self)), ?s')"
    using python_function_call [of "env_ptr self" name rest ?s'
        "Inl (KeyError (cdata_repr (env_ptr self)))" "world ?s'" data]
      call_no_entry [OF gone]
    by (simp add: KeyError_def)
  show ?thesis using gone call by (simp add: Environment_del_state domIff)
qed

text \<open>The theorem for the environment of the example session.\<close>

theorem Environment_del_removes_entry_witness:
  "fst (Environment_del journal_lib \<lparr>env_ptr = 4096\<rparr> session) = Inr ()
   \<and> ENVIRONMENT_DATA (snd (Environment_del journal_lib \<lparr>env_ptr = 4096\<rparr> session)) 4096 = None
   \<and> python_function 4096 [Symbol_data ''echo'', Integer_data 1] PyNone
        (snd (Environment_del journal_lib \<lparr>env_ptr = 4096\<rparr> session))
       = (Inr (), PyStr (''KeyError: <cdata '' @ [CHR 0x27] @ ''void *'' @ [CHR 0x27] @ '' 0x1000>''),
          \<lparr>ENVIRONMENT_DATA = Map.empty, native = [''DestroyEnvironment''], world = 0\<rparr>)"
  using Environment_del_removes_entry [of journal_lib "\<lparr>env_ptr = 4096\<rparr>" session
      "''echo''" "[Integer_data 1]" PyNone]
  by (simp add: Environment_del_state journal_lib_def session_def cdata_repr_def hex_digit_def)

subsection \<open>Loading and the other operations\<close>

text \<open>
  Claim C9. \<open>load\<close> calls \<open>EnvBload\<close> first. When that returns 1, \<open>load\<close> returns
  with the native state \<open>EnvBload\<close> left, \<open>EnvLoad\<close> not having run. Otherwise
  \<open>EnvLoad\<close> runs on that state, and \<open>load\<close> returns normally when it returns 1 and
  raises \<open>CLIPSError\<close> when it does not. So \<open>load\<close> raises exactly when both
  attempts fail.
\<close>

theorem load_binary_first_then_text:
  "(let b = EnvBload L (env_ptr self) path (native s);
        t = EnvLoad L (env_ptr self) path (snd b)
    in (fst b = 1 \<longrightarrow> load L self path s = (Inr (), s\<lparr>native := snd b\<rparr>))
     \<and> (fst b \<noteq> 1 \<and> fst t = 1 \<longrightarrow> load L self path s = (Inr (), s\<lparr>native := snd t\<rparr>))
     \<and> (fst b \<noteq> 1 \<and> fst t \<noteq> 1 \<longrightarrow>
          load L self path s
            = (Inl (CLIPSError (last_message L (env_ptr self) (snd t))), s\<lparr>native := snd t\<rparr>))
     \<and> ((\<exists>error. fst (load L self path s) = Inl error) = (fst b \<noteq> 1 \<and> fst t \<noteq> 1)))"
  by (auto simp: load_def Let_def split: prod.splits)

text \<open>The theorem at three paths: the journal shows which native calls were made.\<close>

theorem load_binary_first_then_text_witness:
  "load journal_lib \<lparr>env_ptr = 4096\<rparr> ''rules.bin'' session
     = (Inr (), session\<lparr>native := [''EnvBload'']\<rparr>)
   \<and> load journal_lib \<lparr>env_ptr = 4096\<rparr> ''rules.clp'' session
     = (Inr (), session\<lparr>native := [''EnvBload'', ''EnvLoad'']\<rparr>)
   \<and> load journal_lib \<lparr>env_ptr = 4096\<rparr> ''rules.txt'' session
     = (Inl (PyExc ''CLIPSError'' ''EnvLoad failed'' True), session\<lparr>native := [''EnvBload'', ''EnvLoad'']\<rparr>)"
  using load_binary_first_then_text [of journal_lib "\<lparr>env_ptr = 4096\<rparr>" "''rules.bin''" session]
    load_binary_first_then_text [of journal_lib "\<lparr>env_ptr = 4096\<rparr>" "''rules.clp''" session]
    load_binary_first_then_text [of journal_lib "\<lparr>env_ptr = 4096\<rparr>" "''rules.txt''" session]
  by (simp add: journal_lib_def session_def CLIPSError_def Let_def)

text \<open>
  Claim C4, as amended. \<open>load\<close>, \<open>save\<close>, \<open>batch_star\<close>, \<open>build\<close> and \<open>eval\<close>
  raise \<open>CLIPSError\<close>, carrying the message of the environment's error router, exactly
  when the native call reports failure (a status other than 1; for \<open>save\<close>, the status
  0; for \<open>load\<close>, both attempts). \<open>reset\<close> and \<open>clear\<close> call the native function,
  discard what it reports and always return normally.
\<close>

theorem failures_raise_CLIPSError_but_reset_and_clear_never_raise:
  "raised (load L self path s) =
     (let b = EnvBload L (env_ptr self) path (native s);
          t = EnvLoad L (env_ptr self) path (snd b)
      in if fst b \<noteq> 1 \<and> fst t \<noteq> 1
         then Some (CLIPSError (last_message L (env_ptr self) (snd t))) else None)
   \<and> raised (save L self path binary s) =
     (let r = (if binary then EnvBsave L (env_ptr self) path (native s)
               else EnvSave L (env_ptr self) path (native s))
      in if fst r = 0 then Some (CLIPSError (last_message L (env_ptr self) (snd r))) else None)
   \<and> raised (batch_star L self path s) =
     (let r = EnvBatchStar L (env_ptr self) path (native s)
      in if fst r \<noteq> 1 then Some (CLIPSError (last_message L (env_ptr self) (snd r))) else None)
   \<and> raised (build L self text s) =
     (let r = EnvBuild L (env_ptr self) text (native s)
      in if fst r \<noteq> 1 then Some (CLIPSError (last_message L (env_ptr self) (snd r))) else None)
   \<and> raised (eval L self text s) =
     (let r = EnvEval L (env_ptr self) text (native s)
      in if fst (fst r) \<noteq> 1 then Some (CLIPSError (last_message L (env_ptr self) (snd r))) else None)
   \<and> reset L self s = (Inr (), s\<lparr>native := snd (EnvReset L (env_ptr self) (native s))\<rparr>)
   \<and> clear L self s = (Inr (), s\<lparr>native := snd (EnvClear L (env_ptr self) (native s))\<rparr>)
   \<and> raised (reset L self s) = None
   \<and> raised (clear L self s) = None"
proof -
  have l: "raised (load L self path s) =
     (let b = EnvBload L (env_ptr self) path (native s);
          t = EnvLoad L (env_ptr self) path (snd b)
      in if fst b \<noteq> 1 \<and> fst t \<noteq> 1
         then Some (CLIPSError (last_message L (env_ptr self) (snd t))) else None)"
    by (simp add: raised_def load_def Let_def split: prod.splits)
  have sv: "raised (save L self path binary s) =
     (let r = (if binary then EnvBsave L (env_ptr self) path (native s)
               else EnvSave L (env_ptr self) path (native s))
      in if fst r = 0 then Some (CLIPSError (last_message L (env_ptr self) (snd r))) else None)"
    by (simp add: raised_def save_def Let_def split: prod.splits)
  have bs: "raised (batch_star L self path s) =
     (let r = EnvBatchStar L (env_ptr self) path (native s)
      in if fst r \<noteq> 1 then Some (CLIPSError (last_message L (env_ptr self) (snd r))) else None)"
    by (simp add: raised_def batch_star_def Let_def split: prod.splits)
  have bd: "raised (build L self text s) =
     (let r = EnvBuild L (env_ptr self) text (native s)
      in if fst r \<noteq> 1 then Some (CLIPSError (last_message L (env_ptr self) (snd r))) else None)"
    by (simp add: raised_def build_def Let_def split: prod.splits)
  have ev: "raised (eval L self text s) =
     (let r = EnvEval L (env_ptr self) text (native s)
      in if fst (fst r) \<noteq> 1 then Some (CLIPSError (last_message L (env_ptr self) (snd r))) else None)"
    by (simp add: raised_def eval_def Let_def split: prod.splits)
  have rs: "reset L self s = (Inr (), s\<lparr>native := snd (EnvReset L (env_ptr self) (native s))\<rparr>)"
    by (simp add: reset_def split: prod.splits)
  have cl: "clear L self s = (Inr (), s\<lparr>native := snd (EnvClear L (env_ptr self) (native s))\<rparr>)"
    by (simp add: clear_def split: prod.splits)
  have rr: "raised (reset L self s) = None" "raised (clear L self s) = None"
    by (simp_all add: raised_def rs cl)
  from l sv bs bd ev rs cl rr show ?thesis by blast
qed

text \<open>The theorem with the journal library.\<close>

theorem failures_raise_CLIPSError_but_reset_and_clear_never_raise_witness:
  "raised (build journal_lib \<lparr>env_ptr = 4096\<rparr> ''(defrule'' session)
     = Some (PyExc ''CLIPSError'' ''EnvBuild failed'' True)
   \<and> raised (build journal_lib \<lparr>env_ptr = 4096\<rparr> ''(defrule hello =>)'' session) = None
   \<and> raised (save journal_lib \<lparr>env_ptr = 4096\<rparr> [] True session)
     = Some (PyExc ''CLIPSError'' ''EnvBsave failed'' True)
   \<and> raised (reset journal_lib \<lparr>env_ptr = 4096\<rparr> session) = None"
  using failures_raise_CLIPSError_but_reset_and_clear_never_raise
      [of journal_lib "\<lparr>env_ptr = 4096\<rparr>" "[]" session True "''(defrule''"]
    failures_raise_CLIPSError_but_reset_and_clear_never_raise
      [of journal_lib "\<lparr>env_ptr = 4096\<rparr>" "[]" session True "''(defrule hello =>)''"]
  by (simp add: journal_lib_def session_def CLIPSError_def Let_def)

text \<open>
  Claim C4 as stated fails: with a library whose \<open>EnvReset\<close> and \<open>EnvClear\<close> refuse
  (status 0, a message on the error router, nothing done), \<open>reset\<close> and \<open>clear\<close>
  return normally and raise nothing.
\<close>

theorem refused_reset_and_clear_return_normally:
  "fst (EnvReset journal_lib 4096 (native session)) = 0
   \<and> last_message journal_lib 4096 (snd (EnvReset journal_lib 4096 (native session))) = ''EnvReset failed''
   \<and> reset journal_lib \<lparr>env_ptr = 4096\<rparr> session = (Inr (), session\<lparr>native := [''EnvReset'']\<rparr>)
   \<and> fst (EnvClear journal_lib 4096 (native session)) = 0
   \<and> clear journal_lib \<lparr>env_ptr = 4096\<rparr> session = (Inr (), session\<lparr>native := [''EnvClear'']\<rparr>)"
  by (simp add: journal_lib_def session_def reset_def clear_def)

section \<open>Reset and clear over the engine of the spec\<close>

subsection \<open>The engine does not depend on the fact identifiers in use\<close>

text \<open>
  Moving every fact identifier up by \<open>k\<close> commutes with each operation of the engine:
  the matcher reads the templates and values of the facts, and the agenda the order of
  the activations.
\<close>

lemma match_pattern_shift: "match_pattern p (shift_fact k f) b = match_pattern p f b"
  by (simp add: match_pattern_def shift_fact_def)

lemma join_shift:
  "join ps (map (shift_fact k) fs) b
     = map (\<lambda>(ids, b'). (map (\<lambda>i. i + k) ids, b')) (join ps fs b)"
proof (induction ps arbitrary: b)
  case Nil
  show ?case by simp
next
  case (Cons p ps)
  have inner: "\<And>f. (case match_pattern p f b of
                 None \<Rightarrow> []
               | Some b' \<Rightarrow> map (\<lambda>(ids, b''). (fact_id (shift_fact k f) # ids, b''))
                              (join ps (map (shift_fact k) fs) b'))
      = map (\<lambda>(ids, b'). (map (\<lambda>i. i + k) ids, b'))
          (case match_pattern p f b of
             None \<Rightarrow> []
           | Some b' \<Rightarrow> map (\<lambda>(ids, b''). (fact_id f # ids, b'')) (join ps fs b'))"
    by (simp add: Cons.IH shift_fact_def case_prod_beta split: option.split)
  show ?case
    by (simp add: map_concat o_def match_pattern_shift inner)
qed

lemma rule_matches_shift:
  "rule_matches r (map (shift_fact k) fs) = map (shift_activation k) (rule_matches r fs)"
  by (simp add: rule_matches_def join_shift shift_activation_def case_prod_beta)

lemma shift_activation_eq: "shift_activation k a = shift_activation k a' \<longleftrightarrow> a = a'"
proof
  assume eq: "shift_activation k a = shift_activation k a'"
  from arg_cong [OF eq, of act_rule] have r: "act_rule a = act_rule a'"
    by (simp add: shift_activation_def)
  from arg_cong [OF eq, of act_facts]
  have "map (\<lambda>i. i + k) (act_facts a) = map (\<lambda>i. i + k) (act_facts a')"
    by (simp add: shift_activation_def)
  then have "act_facts a = act_facts a'"
    by (simp add: inj_on_def inj_map_eq_map)
  with r show "a = a'" by simp
qed simp

lemma shift_activation_mem:
  "shift_activation k a \<in> set (map (shift_activation k) ag) \<longleftrightarrow> a \<in> set ag"
  by (auto simp: shift_activation_eq)

lemma insert_activation_shift:
  "insert_activation (shift_activation k a) (map (shift_activation k) ag)
     = map (shift_activation k) (insert_activation a ag)"
  using shift_activation_mem [of k a ag] by (simp add: insert_activation_def del: set_map)

lemma fold_insert_activation_shift:
  "fold insert_activation (map (shift_activation k) new) (map (shift_activation k) ag)
     = map (shift_activation k) (fold insert_activation new ag)"
  by (induction new arbitrary: ag) (simp_all add: insert_activation_shift)

lemma filter_member_shift:
  "filter (\<lambda>a. i + k \<in> set (act_facts a)) (map (shift_activation k) acts)
     = map (shift_activation k) (filter (\<lambda>a. i \<in> set (act_facts a)) acts)"
  by (induction acts) (auto simp: shift_activation_def)

lemma notify_assert_shift: "notify_assert (i + k) (shift_ids k e) = shift_ids k (notify_assert i e)"
proof -
  have new: "concat (map (\<lambda>r. filter (\<lambda>a. i + k \<in> set (act_facts a))
                 (rule_matches r (map (shift_fact k) (facts e)))) (rules e))
      = map (shift_activation k)
          (concat (map (\<lambda>r. filter (\<lambda>a. i \<in> set (act_facts a)) (rule_matches r (facts e))) (rules e)))"
    by (simp add: rule_matches_shift filter_member_shift map_concat o_def)
  show ?thesis
    by (simp add: notify_assert_def shift_ids_def new fold_insert_activation_shift)
qed

lemma assert_fact_shift:
  "assert_fact tmpl vs (shift_ids k e)
     = (case assert_fact tmpl vs e of
          Inl err \<Rightarrow> Inl err
        | Inr (i, e') \<Rightarrow> Inr (i + k, shift_ids k e'))"
proof -
  let ?f = "\<lparr>fact_id = next_fact_id e, fact_template = tmpl, fact_values = vs\<rparr>"
  have grown: "(shift_ids k e)\<lparr>facts := facts (shift_ids k e) @
          [\<lparr>fact_id = next_fact_id (shift_ids k e), fact_template = tmpl, fact_values = vs\<rparr>],
        next_fact_id := Suc (next_fact_id (shift_ids k e))\<rparr>
      = shift_ids k (e\<lparr>facts := facts e @ [?f], next_fact_id := Suc (next_fact_id e)\<rparr>)"
    by (simp add: shift_ids_def shift_fact_def)
  have "templates (shift_ids k e) = templates e" "next_fact_id (shift_ids k e) = next_fact_id e + k"
    by (simp_all add: shift_ids_def)
  then show ?thesis
    unfolding assert_fact_def grown by (simp add: notify_assert_shift)
qed

lemma assert_all_shift:
  "assert_all fs (shift_ids k e)
     = (case assert_all fs e of Inl err \<Rightarrow> Inl err | Inr e' \<Rightarrow> Inr (shift_ids k e'))"
proof (induction fs arbitrary: e)
  case Nil
  show ?case by simp
next
  case (Cons f fs)
  obtain tmpl vs where f: "f = (tmpl, vs)" by (cases f)
  show ?case
    by (simp add: f assert_fact_shift Cons.IH split: sum.split prod.split)
qed

lemma filter_not_member_shift:
  "filter (\<lambda>a. i + k \<notin> set (act_facts a)) (map (shift_activation k) acts)
     = map (shift_activation k) (filter (\<lambda>a. i \<notin> set (act_facts a)) acts)"
  by (induction acts) (auto simp: shift_activation_def)

lemma filter_other_facts_shift:
  "filter (\<lambda>f. fact_id f \<noteq> i + k) (map (shift_fact k) fs)
     = map (shift_fact k) (filter (\<lambda>f. fact_id f \<noteq> i) fs)"
  by (induction fs) (auto simp: shift_fact_def)

lemma retract_shift:
  "retract (i + k) (shift_ids k e)
     = (case retract i e of Inl err \<Rightarrow> Inl err | Inr e' \<Rightarrow> Inr (shift_ids k e'))"
proof -
  have known: "i + k \<in> fact_id ` set (map (shift_fact k) (facts e)) \<longleftrightarrow> i \<in> fact_id ` set (facts e)"
    by (auto simp: shift_fact_def image_iff)
  show ?thesis
    using known
    by (simp add: retract_def shift_ids_def filter_other_facts_shift filter_not_member_shift
        del: set_map)
qed

lemma shift_activation_rule: "act_rule (shift_activation k a) = act_rule a"
  by (simp add: shift_activation_def)

lemma top_salience_shift: "top_salience (map (shift_activation k) ag) = top_salience ag"
proof (cases ag)
  case Nil
  then show ?thesis by (simp add: top_salience_def)
next
  case (Cons a rest)
  then show ?thesis
    by (simp add: top_salience_def fold_map o_def shift_activation_rule)
qed

lemma fold_max_attained:
  "fold (\<lambda>a m. max (f a) m) xs m0 = m0 \<or> fold (\<lambda>a m. max (f a) m) xs m0 \<in> f ` set xs"
proof (induction xs arbitrary: m0)
  case Nil
  show ?case by simp
next
  case (Cons x xs)
  from Cons.IH [of "max (f x) m0"] show ?case
    by (auto simp: max_def split: if_splits)
qed

lemma top_salience_attained:
  assumes "ag \<noteq> []"
  shows "filter (\<lambda>a. salience (act_rule a) = top_salience ag) ag \<noteq> []"
proof -
  have "hd ag \<in> set ag" using assms by simp
  then have "top_salience ag \<in> (\<lambda>a. salience (act_rule a)) ` set ag"
    using fold_max_attained [of "\<lambda>a. salience (act_rule a)" ag "salience (act_rule (hd ag))"]
    by (auto simp: top_salience_def)
  then show ?thesis
    by (auto simp: filter_empty_conv)
qed

lemma peek_shift:
  "peek st (map (shift_activation k) ag) = map_option (shift_activation k) (peek st ag)"
proof (cases "ag = []")
  case True
  then show ?thesis by (simp add: peek_def)
next
  case False
  let ?best = "filter (\<lambda>a. salience (act_rule a) = top_salience ag) ag"
  have best: "filter (\<lambda>a. salience (act_rule a) = top_salience (map (shift_activation k) ag))
                (map (shift_activation k) ag) = map (shift_activation k) ?best"
    by (simp add: filter_map o_def top_salience_shift shift_activation_rule)
  have ne: "?best \<noteq> []" by (rule top_salience_attained [OF False])
  show ?thesis
    using False ne
    by (cases st) (simp_all add: peek_def Let_def best last_map hd_map del: top_salience_shift)
qed

lemma remove1_shift:
  "remove1 (shift_activation k a) (map (shift_activation k) ag)
     = map (shift_activation k) (remove1 a ag)"
  by (induction ag) (auto simp: shift_activation_eq)

lemma pop_shift:
  "pop st (map (shift_activation k) ag)
     = map_option (\<lambda>(a, ag'). (shift_activation k a, map (shift_activation k) ag')) (pop st ag)"
  by (simp add: pop_def peek_shift remove1_shift split: option.split)

lemma binding_of_shift: "binding_of (shift_ids k e) (shift_activation k a) = binding_of e a"
proof -
  have sel: "filter (\<lambda>(ids, b). ids = map (\<lambda>i. i + k) (act_facts a))
               (map (\<lambda>(ids, b'). (map (\<lambda>i. i + k) ids, b')) js)
      = map (\<lambda>(ids, b'). (map (\<lambda>i. i + k) ids, b')) (filter (\<lambda>(ids, b). ids = act_facts a) js)"
    for js :: "(nat list \<times> binding) list"
    by (induction js) (auto simp: inj_map_eq_map inj_on_def)
  have facts: "facts (shift_ids k e) = map (shift_fact k) (facts e)"
    by (simp add: shift_ids_def)
  show ?thesis
    unfolding binding_of_def facts join_shift
    by (simp add: shift_activation_def sel split: list.split)
qed

lemma shift_ids_halted: "(shift_ids k e)\<lparr>loop_state := st\<rparr> = shift_ids k (e\<lparr>loop_state := st\<rparr>)"
  by (simp add: shift_ids_def)

lemma shift_ids_fields:
  "loop_state (shift_ids k e) = loop_state e" "strategy (shift_ids k e) = strategy e"
  "rules (shift_ids k e) = rules e" "templates (shift_ids k e) = templates e"
  "agenda (shift_ids k e) = map (shift_activation k) (agenda e)"
  by (simp_all add: shift_ids_def)

lemma execute_shift:
  "execute acts (shift_activation k a) b steps (shift_ids k e)
     = (case execute acts a b steps e of
          Inl err \<Rightarrow> Inl err
        | Inr (steps', e') \<Rightarrow> Inr (steps', shift_ids k e'))"
proof (induction acts arbitrary: steps e)
  case Nil
  show ?case by simp
next
  case (Cons act acts)
  have nth: "n < length (act_facts a) \<Longrightarrow>
      act_facts (shift_activation k a) ! n = act_facts a ! n + k" for n
    by (simp add: shift_activation_def)
  have len: "length (act_facts (shift_activation k a)) = length (act_facts a)"
    by (simp add: shift_activation_def)
  show ?case
  proof (cases "steps = Some 0")
    case True
    then show ?thesis by simp
  next
    case False
    show ?thesis
    proof (cases act)
      case (Assert_action tmpl ts)
      with False show ?thesis
        by (simp add: assert_fact_shift Cons.IH split: sum.split prod.split)
    next
      case (Retract_action n)
      with False show ?thesis
        by (simp add: len nth retract_shift Cons.IH split: sum.split)
    next
      case (Call_action name ts)
      with False show ?thesis by (simp add: Cons.IH)
    next
      case Halt_action
      with False show ?thesis by (simp add: shift_ids_halted)
    qed
  qed
qed

lemma shift_ids_agenda:
  "(shift_ids k e)\<lparr>agenda := map (shift_activation k) ag\<rparr> = shift_ids k (e\<lparr>agenda := ag\<rparr>)"
  by (simp add: shift_ids_def)

lemma run_loop_shift:
  "run_loop fuel steps (shift_ids k e) fired
     = (case run_loop fuel steps e fired of
          None \<Rightarrow> None
        | Some (Inl err) \<Rightarrow> Some (Inl err)
        | Some (Inr (fired', e')) \<Rightarrow> Some (Inr (fired', shift_ids k e')))"
proof (induction fuel arbitrary: steps e fired)
  case 0
  show ?case by simp
next
  case (Suc fuel)
  show ?case
  proof (cases "pop (strategy e) (agenda e)")
    case None
    then show ?thesis
      by (simp add: shift_ids_fields pop_shift shift_ids_halted)
  next
    case (Some popped)
    obtain a ag where popped: "popped = (a, ag)" by (cases popped)
    show ?thesis
      using Some popped
      by (simp add: shift_ids_fields pop_shift shift_ids_halted shift_ids_agenda
          binding_of_shift execute_shift shift_activation_rule Suc.IH
          split: sum.split prod.split)
  qed
qed

lemma run_shift:
  "run fuel max_steps (shift_ids k e)
     = (case run fuel max_steps e of
          None \<Rightarrow> None
        | Some (Inl err) \<Rightarrow> Some (Inl err)
        | Some (Inr (fired, e')) \<Rightarrow> Some (Inr (fired, shift_ids k e')))"
  by (simp add: run_def shift_ids_fields shift_ids_halted run_loop_shift)

lemma fires_shift: "fires fuel max_steps fs (shift_ids k e) name = fires fuel max_steps fs e name"
  by (simp add: fires_def assert_all_shift run_shift split: sum.split option.split prod.split)

lemma engine_reset_shift: "engine_reset e = shift_ids (next_fact_id e) (definitions_only e)"
  by (simp add: engine_reset_def shift_ids_def definitions_only_def)

subsection \<open>An engine without rules fires nothing\<close>

lemma assert_fact_no_rules:
  "rules e = [] \<Longrightarrow> assert_fact tmpl vs e = Inr (i, e') \<Longrightarrow> rules e' = [] \<and> agenda e' = agenda e"
  by (auto simp: assert_fact_def notify_assert_def split: if_splits)

lemma assert_all_no_rules:
  "rules e = [] \<Longrightarrow> assert_all fs e = Inr e' \<Longrightarrow> rules e' = [] \<and> agenda e' = agenda e"
proof (induction fs arbitrary: e)
  case Nil
  then show ?case by simp
next
  case (Cons f fs)
  obtain tmpl vs where f: "f = (tmpl, vs)" by (cases f)
  from Cons.prems(2) obtain i e1 where first: "assert_fact tmpl vs e = Inr (i, e1)"
    and rest: "assert_all fs e1 = Inr e'"
    by (auto simp: f split: sum.splits)
  from assert_fact_no_rules [OF Cons.prems(1) first] Cons.IH [OF _ rest] show ?case by simp
qed

lemma run_empty_agenda: "agenda e = [] \<Longrightarrow> run fuel max_steps e = Some (Inr (fired, e')) \<Longrightarrow> fired = []"
  by (cases fuel) (auto simp: run_def pop_def peek_def split: if_splits)

lemma fires_no_rules:
  assumes "rules e = []" "agenda e = []"
  shows "\<not> fires fuel max_steps fs e name"
proof (cases "assert_all fs e")
  case (Inl err)
  then show ?thesis by (simp add: fires_def)
next
  case (Inr e')
  from assert_all_no_rules [OF assms(1) Inr] assms(2) have empty: "agenda e' = []" by simp
  show ?thesis
  proof (cases "run fuel max_steps e'")
    case None
    with Inr show ?thesis by (simp add: fires_def)
  next
    case (Some outcome)
    show ?thesis
    proof (cases outcome)
      case (Inl err)
      with Inr Some show ?thesis by (simp add: fires_def)
    next
      case (Inr result)
      obtain fired e'' where result: "result = (fired, e'')" by (cases result)
      from run_empty_agenda [OF empty] Some Inr result have "fired = []" by simp
      with \<open>assert_all fs e = Inr e'\<close> Some Inr result show ?thesis by (simp add: fires_def)
    qed
  qed
qed

subsection \<open>Reset, clear and the registry\<close>

lemma emptied_engine_shift:
  assumes "facts e0 = []" "agenda e0 = []" "loop_state e0 = Idle"
    and "rules e0 = rules e" "templates e0 = templates e" "strategy e0 = strategy e"
  shows "e0 = shift_ids (next_fact_id e0) (definitions_only e)"
  using assms by (intro engine.equality) (simp_all add: shift_ids_def definitions_only_def)

lemma reset_spec_lib:
  "engine_of (native s) (env_ptr self) = Some e \<Longrightarrow>
   reset spec_lib self s
     = (Inr (), s\<lparr>native := (native s)\<lparr>engine_of := (engine_of (native s))(env_ptr self \<mapsto> engine_reset e)\<rparr>\<rparr>)"
  by (simp add: reset_def spec_lib_def on_engine_def)

lemma clear_spec_lib:
  "engine_of (native s) (env_ptr self) = Some e \<Longrightarrow>
   clear spec_lib self s
     = (Inr (), s\<lparr>native := (native s)\<lparr>engine_of := (engine_of (native s))(env_ptr self \<mapsto> new_engine)\<rparr>\<rparr>)"
  by (simp add: clear_def spec_lib_def on_engine_def engine_clear_def)



text \<open>
  Claim C6 as stated fails in its last part: after \<open>define_function\<close> and \<open>clear()\<close>
  the registry of the environment still holds the callable, which it did not after
  creation, so the environment is not back in its post-create state.
\<close>

lemma created_value:
  "created = (\<lparr>env_ptr = 1\<rparr>,
     \<lparr>ENVIRONMENT_DATA = [1 \<mapsto> \<lparr>user_functions = Map.empty, error_router = python_router\<rparr>],
      native = \<lparr>engine_of = [1 \<mapsto> new_engine], next_handle = 2\<rparr>, world = 0\<rparr>)"
  by (simp add: created_def Environment_init_def spec_lib_def engines_start_def no_engines_def
      python_router_def)



end
